theory Spec2Isabelle
  imports Complex_Main
begin

section \<open>SimBrief uplink adapter: data model\<close>

text \<open>
  The development follows \<^verbatim>\<open>SimBriefUplinkAdapter.ts\<close>. JavaScript numbers that the
  adapter only compares (coordinates, distances) are values of \<open>jsnum\<close>: a real number,
  one of the two infinities, or not-a-number. The only operation the adapter applies to
  them is \<^verbatim>\<open><\<close>, which is false as soon as one side is not-a-number. Counters and
  indices (leg counts, the insertion head, array indices) are integers.
\<close>

datatype jsnum = NaN | NegInf | Num real | PosInf

fun jslt :: "jsnum \<Rightarrow> jsnum \<Rightarrow> bool" where
  "jslt (Num a) (Num b) = (a < b)"
| "jslt NegInf (Num b) = True"
| "jslt NegInf PosInf = True"
| "jslt (Num a) PosInf = True"
| "jslt a b = False"

definition MAX_SAFE_INTEGER :: jsnum where
  "MAX_SAFE_INTEGER = Num 9007199254740991"

text \<open>
  Reading \<^verbatim>\<open>xs[i]\<close> in JavaScript gives \<^verbatim>\<open>undefined\<close> when \<open>i\<close> is not an index of
  \<open>xs\<close> (in particular for \<open>i = -1\<close>); \<open>None\<close> stands for \<^verbatim>\<open>undefined\<close> throughout.
\<close>

definition arrayAt :: "'a list \<Rightarrow> int \<Rightarrow> 'a option" where
  "arrayAt xs i = (if 0 \<le> i \<and> i < int (length xs) then Some (xs ! nat i) else None)"

record coordinates =
  lat :: jsnum
  long :: jsnum

text \<open>
  One entry of the navlog of the SimBrief document (\<^verbatim>\<open>ofp.navlog[i]\<close>). The fields
  \<open>nf_ident\<close> and \<open>nf_type\<close> are the source's \<^verbatim>\<open>ident\<close> and \<^verbatim>\<open>type\<close>.
\<close>

record navlogFix =
  nf_ident :: string
  nf_type :: string
  pos_lat :: string
  pos_long :: string
  via_airway :: string
  is_sid_star :: string

text \<open>
  \<^verbatim>\<open>OfpRouteChunk\<close>: the tag \<^verbatim>\<open>instruction\<close> is the constructor, the other fields
  are its arguments (\<^verbatim>\<open>ident\<close>, then \<^verbatim>\<open>locationHint\<close>; for \<open>LatLong\<close> the fields
  \<^verbatim>\<open>lat\<close> and \<^verbatim>\<open>long\<close>).
\<close>

datatype chunk =
    Airway string coordinates
  | AirwayTermination string
  | Waypoint string coordinates
  | LatLong jsnum jsnum
  | Dct
  | Procedure string
  | SidEnrouteTransition string coordinates
  | StarEnrouteTransition string

section \<open>The navlog classifier\<close>

text \<open>
  \<^verbatim>\<open>instructions[instructions.length - 1]\<close>, which is \<^verbatim>\<open>undefined\<close> on the empty array.
\<close>

definition lastInstructionOf :: "chunk list \<Rightarrow> chunk option" where
  "lastInstructionOf instructions =
     (if instructions = [] then None else Some (last instructions))"

fun isAirway :: "chunk option \<Rightarrow> bool" where
  "isAirway (Some (Airway a h)) = True"
| "isAirway c = False"

fun isProcedure :: "chunk option \<Rightarrow> bool" where
  "isProcedure (Some (Procedure p)) = True"
| "isProcedure c = False"

fun isProcedureFor :: "chunk option \<Rightarrow> string \<Rightarrow> bool" where
  "isProcedureFor (Some (Procedure p)) v = (p = v)"
| "isProcedureFor c v = False"

fun isAirwayFor :: "chunk option \<Rightarrow> string \<Rightarrow> bool" where
  "isAirwayFor (Some (Airway a h)) v = (a = v)"
| "isAirwayFor c v = False"

text \<open>The regular expression \<^verbatim>\<open>/^NAT[A-Z]$/\<close>.\<close>

definition matchesNat :: "string \<Rightarrow> bool" where
  "matchesNat s =
     (case s of
        [a, b, c, d] \<Rightarrow> a = CHR ''N'' \<and> b = CHR ''A'' \<and> c = CHR ''T''
                          \<and> d \<in> set ''ABCDEFGHIJKLMNOPQRSTUVWXYZ''
      | _ \<Rightarrow> False)"

definition isSkipped :: "navlogFix \<Rightarrow> bool" where
  "isSkipped fix =
     (nf_ident fix = ''TOC'' \<or> nf_ident fix = ''TOD'' \<or> nf_type fix = ''apt'')"

definition isDirect :: "string \<Rightarrow> bool" where
  "isDirect v = (v = ''DCT'' \<or> v = ''DCT*'' \<or> matchesNat v)"

definition hintOf :: "(string \<Rightarrow> jsnum) \<Rightarrow> navlogFix \<Rightarrow> coordinates" where
  "hintOf parseFloat fix = \<lparr> lat = parseFloat (pos_lat fix), long = parseFloat (pos_long fix) \<rparr>"

text \<open>
  The \<^verbatim>\<open>if / else if\<close> chain of one iteration of the loop of
  \<^verbatim>\<open>generateRouteInstructionsFromNavlog\<close>: the chunks pushed for \<open>fix\<close>, given the
  previous navlog entry \<open>lastFix\<close> (\<^verbatim>\<open>ofp.navlog[i - 1]\<close>) and the instructions so far.
  \<open>parseFloat\<close> is JavaScript's function of that name.
\<close>

definition pushFor ::
  "(string \<Rightarrow> jsnum) \<Rightarrow> navlogFix option \<Rightarrow> navlogFix \<Rightarrow> chunk list \<Rightarrow> chunk list" where
  "pushFor parseFloat lastFix fix instructions =
     (let lastInstruction = lastInstructionOf instructions in
      if is_sid_star fix = ''1'' then
        (if lastInstruction = None then instructions @ [Procedure (via_airway fix)]
         else if \<not> isProcedure lastInstruction then instructions @ [Procedure (via_airway fix)]
         else instructions)
      else if isProcedureFor lastInstruction (via_airway fix) then
        instructions @ [SidEnrouteTransition (nf_ident fix) (hintOf parseFloat fix)]
      else if isDirect (via_airway fix) \<or> length instructions = 0 then
        (if nf_type fix = ''ltlg'' then
           instructions @ [LatLong (parseFloat (pos_lat fix)) (parseFloat (pos_long fix))]
         else instructions @ [Waypoint (nf_ident fix) (hintOf parseFloat fix)])
      else if \<not> isAirwayFor lastInstruction (via_airway fix) then
        (case lastFix of
           Some lf \<Rightarrow>
             if isAirway lastInstruction \<and> via_airway fix \<noteq> via_airway lf then
               instructions @ [AirwayTermination (nf_ident lf)]
             else instructions
         | None \<Rightarrow> instructions)
        @ [Airway (via_airway fix) (hintOf parseFloat fix)]
      else instructions)"

text \<open>
  The closing test of the iteration: \<^verbatim>\<open>ofp.navlog[i + 1]?.via_airway !== fix.via_airway\<close>
  holds when there is no next entry, or when the next entry has another via-identifier.
\<close>

definition endOfAirway :: "navlogFix \<Rightarrow> navlogFix list \<Rightarrow> chunk list \<Rightarrow> chunk list" where
  "endOfAirway fix following instructions =
     (if isAirway (lastInstructionOf instructions)
         \<and> (case following of [] \<Rightarrow> True | nextFix # others \<Rightarrow> via_airway nextFix \<noteq> via_airway fix)
      then instructions @ [AirwayTermination (nf_ident fix)]
      else instructions)"

text \<open>
  The loop over the navlog, as a recursion over the entries still to visit: \<open>lastFix\<close>
  is the entry before the head of the list, the tail of the list starts with
  \<^verbatim>\<open>ofp.navlog[i + 1]\<close>. A skipped entry (\<^verbatim>\<open>continue\<close>) leaves the instructions as
  they are and does not run the closing test.
\<close>

fun navlogLoop ::
  "(string \<Rightarrow> jsnum) \<Rightarrow> navlogFix option \<Rightarrow> navlogFix list \<Rightarrow> chunk list \<Rightarrow> chunk list" where
  "navlogLoop parseFloat lastFix [] instructions = instructions"
| "navlogLoop parseFloat lastFix (fix # following) instructions =
     (if isSkipped fix then navlogLoop parseFloat (Some fix) following instructions
      else navlogLoop parseFloat (Some fix) following
             (endOfAirway fix following (pushFor parseFloat lastFix fix instructions)))"

definition generateRouteInstructionsFromNavlog ::
  "(string \<Rightarrow> jsnum) \<Rightarrow> navlogFix list \<Rightarrow> chunk list" where
  "generateRouteInstructionsFromNavlog parseFloat navlog = navlogLoop parseFloat None navlog []"

section \<open>The route synthesizer and its collaborators\<close>

text \<open>
  Values of the navigation database (\<^verbatim>\<open>Fix\<close>, \<^verbatim>\<open>Airway\<close>, departures, arrivals
  and transitions) with the fields the adapter reads. \<open>awy_fixes\<close> is the source's
  \<^verbatim>\<open>airway.fixes\<close>, \<open>proc_ident\<close> the \<^verbatim>\<open>ident\<close> of a procedure or transition.
\<close>

record Fix =
  ident :: string
  icaoCode :: string
  location :: coordinates

record Airway =
  awy_fixes :: "Fix list"

record dbProcedure =
  proc_ident :: string
  databaseId :: string

record Departure =
  enrouteTransitions :: "dbProcedure list"

text \<open>
  An element of the flight plan: a discontinuity (\<^verbatim>\<open>isDiscontinuity === true\<close>) or a leg
  (\<^verbatim>\<open>isDiscontinuity === false\<close>) with the result of its \<^verbatim>\<open>terminationWaypoint()\<close>.
\<close>

datatype FlightPlanElement = Discontinuity | Leg "Fix option"

text \<open>
  The pending airways of the plan: \<open>pe_airway\<close> and \<open>pe_to\<close> are the fields
  \<^verbatim>\<open>airway\<close> and \<^verbatim>\<open>to\<close> of one of its \<^verbatim>\<open>elements\<close>.
\<close>

record PendingAirwayEntry =
  pe_airway :: "Airway option"
  pe_to :: "Fix option"

record PendingAirways =
  elements :: "PendingAirwayEntry list"

text \<open>
  The uplink flight plan. \<open>pendingAirways\<close> is the one field the adapter assigns itself
  (\<^verbatim>\<open>pendingAirways = undefined\<close>); everything else of the plan is the component
  \<open>rest\<close>, of a type the adapter knows nothing about.
\<close>

record 'r FlightPlan =
  pendingAirways :: "PendingAirways option"
  rest :: 'r

text \<open>
  The collaborators of the adapter, none of which is defined in this file: the reads and
  the mutations of the flight plan service and of the plan, the FMS, the navigation
  database and \<^verbatim>\<open>distanceTo\<close> of \<^verbatim>\<open>msfs-geo\<close>. A mutation maps the plan to the plan
  after the call; calls are taken to return normally. \<open>createLatLonWaypoint\<close> gives
  the \<^verbatim>\<open>waypoint\<close> of the stored waypoint that the FMS returns.
\<close>

record 'r env =
  originLegCount :: "'r FlightPlan \<Rightarrow> nat"
  departureRunwayTransitionLegCount :: "'r FlightPlan \<Rightarrow> nat"
  departureLegCount :: "'r FlightPlan \<Rightarrow> nat"
  departureEnrouteTransitionLegCount :: "'r FlightPlan \<Rightarrow> nat"
  enrouteLegCount :: "'r FlightPlan \<Rightarrow> nat"
  allLegs :: "'r FlightPlan \<Rightarrow> FlightPlanElement list"
  elementAt :: "'r FlightPlan \<Rightarrow> int \<Rightarrow> FlightPlanElement option"
  originDeparture :: "'r FlightPlan \<Rightarrow> Departure option"
  nextWaypoint :: "int \<Rightarrow> Fix option \<Rightarrow> 'r FlightPlan \<Rightarrow> 'r FlightPlan"
  setDepartureProcedure :: "string \<Rightarrow> 'r FlightPlan \<Rightarrow> 'r FlightPlan"
  setArrival :: "string \<Rightarrow> 'r FlightPlan \<Rightarrow> 'r FlightPlan"
  setDepartureEnrouteTransition :: "string \<Rightarrow> 'r FlightPlan \<Rightarrow> 'r FlightPlan"
  startAirwayEntry :: "int \<Rightarrow> 'r FlightPlan \<Rightarrow> 'r FlightPlan"
  thenAirway :: "Airway option \<Rightarrow> 'r FlightPlan \<Rightarrow> 'r FlightPlan"
  thenTo :: "Fix option \<Rightarrow> 'r FlightPlan \<Rightarrow> 'r FlightPlan"
  finalize :: "'r FlightPlan \<Rightarrow> 'r FlightPlan"
  createLatLonWaypoint :: "coordinates \<Rightarrow> Fix option"
  getDepartures :: "string \<Rightarrow> string \<Rightarrow> dbProcedure list"
  getArrivals :: "string \<Rightarrow> dbProcedure list"
  searchAllFix :: "string \<Rightarrow> Fix list"
  searchAirway :: "string \<Rightarrow> Fix \<Rightarrow> Airway list"
  distanceTo :: "coordinates \<Rightarrow> coordinates \<Rightarrow> jsnum"

text \<open>
  \<^verbatim>\<open>OfpRoute\<close>, its nested fields flattened (\<open>from_ident\<close> is \<^verbatim>\<open>from.ident\<close>), and
  \<^verbatim>\<open>SimBriefUplinkOptions\<close>, whose field may be absent.
\<close>

record OfpRoute =
  from_ident :: string
  from_rwy :: string
  from_transAlt :: jsnum
  to_ident :: string
  to_rwy :: string
  to_transLevel :: jsnum
  altn :: string
  costIndex :: jsnum
  chunks :: "chunk list"
  callsign :: string

record SimBriefUplinkOptions =
  doUplinkProcedures :: "bool option"

text \<open>
  The errors that end a run: the \<^verbatim>\<open>Error\<close> thrown for a procedure in the middle of the
  route, the \<^verbatim>\<open>Error\<close>s thrown when a lookup finds nothing (with the chunk kind and the
  identifiers of its message), and the \<^verbatim>\<open>TypeError\<close> of JavaScript for reading a
  property of \<^verbatim>\<open>undefined\<close>.
\<close>

datatype notFound =
    NoFixes string string
  | NoAirways string string
  | NoSearchFix string

datatype error = InvalidSequence | NotFound notFound | TypeError

text \<open>
  The state of a run: the local variable \<^verbatim>\<open>insertHead\<close> and the uplink plan.
\<close>

record 'r uplinkState =
  insertHead :: int
  plan :: "'r FlightPlan"

definition setInsertHeadToEndOfEnroute :: "'r env \<Rightarrow> 'r FlightPlan \<Rightarrow> int" where
  "setInsertHeadToEndOfEnroute env p =
     (let head = int (originLegCount env p
                      + departureRunwayTransitionLegCount env p
                      + departureLegCount env p
                      + departureEnrouteTransitionLegCount env p
                      + enrouteLegCount env p) - 1
      in if enrouteLegCount env p > 1 then
           (case arrayAt (allLegs env p) head of
              Some Discontinuity \<Rightarrow> head - 1
            | lastElement \<Rightarrow> head)
         else head)"

definition ensureAirwaysFinalized :: "'r env \<Rightarrow> 'r uplinkState \<Rightarrow> 'r uplinkState" where
  "ensureAirwaysFinalized env st =
     (case pendingAirways (plan st) of
        None \<Rightarrow> st
      | Some pending \<Rightarrow>
          (let p = (finalize env (plan st))\<lparr> pendingAirways := None \<rparr>
           in \<lparr> insertHead = setInsertHeadToEndOfEnroute env p, plan = p \<rparr>))"

text \<open>
  The loop of \<^verbatim>\<open>pickFix\<close>: \<open>i\<close> is the index of the head of the list, \<open>minDistance\<close>
  and \<open>minDistanceIndex\<close> are the two local variables.
\<close>

fun pickFixLoop ::
  "(coordinates \<Rightarrow> coordinates \<Rightarrow> jsnum) \<Rightarrow> Fix list \<Rightarrow> coordinates \<Rightarrow> nat \<Rightarrow> jsnum \<Rightarrow> int \<Rightarrow> int" where
  "pickFixLoop distanceFn [] locationHint i minDistance minDistanceIndex = minDistanceIndex"
| "pickFixLoop distanceFn (f # fs) locationHint i minDistance minDistanceIndex =
     (let distance = distanceFn (location f) locationHint in
      if jslt distance minDistance
      then pickFixLoop distanceFn fs locationHint (Suc i) distance (int i)
      else pickFixLoop distanceFn fs locationHint (Suc i) minDistance minDistanceIndex)"

definition pickFix :: "'r env \<Rightarrow> Fix list \<Rightarrow> coordinates \<Rightarrow> Fix option" where
  "pickFix env fixes locationHint =
     arrayAt fixes (pickFixLoop (distanceTo env) fixes locationHint 0 MAX_SAFE_INTEGER (- 1))"

text \<open>
  \<^verbatim>\<open>pickAirway\<close> reads \<^verbatim>\<open>airway.fixes[0].location\<close>, a \<^verbatim>\<open>TypeError\<close> for an airway
  without fixes.
\<close>

fun pickAirwayLoop ::
  "(coordinates \<Rightarrow> coordinates \<Rightarrow> jsnum) \<Rightarrow> Airway list \<Rightarrow> coordinates \<Rightarrow> nat \<Rightarrow> jsnum \<Rightarrow> int
     \<Rightarrow> error + int" where
  "pickAirwayLoop distanceFn [] locationHint i minDistance minDistanceIndex = Inr minDistanceIndex"
| "pickAirwayLoop distanceFn (a # as) locationHint i minDistance minDistanceIndex =
     (case arrayAt (awy_fixes a) 0 of
        None \<Rightarrow> Inl TypeError
      | Some first \<Rightarrow>
          (let distance = distanceFn (location first) locationHint in
           if jslt distance minDistance
           then pickAirwayLoop distanceFn as locationHint (Suc i) distance (int i)
           else pickAirwayLoop distanceFn as locationHint (Suc i) minDistance minDistanceIndex))"

definition pickAirway :: "'r env \<Rightarrow> Airway list \<Rightarrow> coordinates \<Rightarrow> error + Airway option" where
  "pickAirway env airways locationHint =
     (case pickAirwayLoop (distanceTo env) airways locationHint 0 MAX_SAFE_INTEGER (- 1) of
        Inl e \<Rightarrow> Inl e
      | Inr minDistanceIndex \<Rightarrow> Inr (arrayAt airways minDistanceIndex))"

text \<open>
  \<^verbatim>\<open>pickAirwayFix\<close>: the first of \<open>fixes\<close> that some fix of the airway equals in
  \<^verbatim>\<open>ident\<close> and \<^verbatim>\<open>icaoCode\<close>, \<^verbatim>\<open>undefined\<close> when there is none. With no airway, the
  test of the first element of \<open>fixes\<close> reads \<^verbatim>\<open>airway.fixes\<close> of \<^verbatim>\<open>undefined\<close>.
\<close>

definition pickAirwayFix :: "Airway option \<Rightarrow> Fix list \<Rightarrow> error + Fix option" where
  "pickAirwayFix airway fixes =
     (case airway of
        None \<Rightarrow> (if fixes = [] then Inr None else Inl TypeError)
      | Some a \<Rightarrow>
          Inr (find (\<lambda>it. list_ex (\<lambda>fx. ident fx = ident it \<and> icaoCode fx = icaoCode it)
                                  (awy_fixes a)) fixes))"

text \<open>
  \<^verbatim>\<open>if (insertHead === -1) { setInsertHeadToEndOfEnroute(); }\<close>, the first statement of
  the cases \<^verbatim>\<open>'waypoint'\<close> and \<^verbatim>\<open>'latlong'\<close>.
\<close>

definition establishInsertHead :: "'r env \<Rightarrow> 'r uplinkState \<Rightarrow> 'r uplinkState" where
  "establishInsertHead env st =
     (if insertHead st = - 1
      then st\<lparr> insertHead := setInsertHeadToEndOfEnroute env (plan st) \<rparr>
      else st)"

text \<open>
  The lookup and insertion that the cases \<^verbatim>\<open>'waypoint'\<close> and (with procedures not
  uplinked) \<^verbatim>\<open>'sidEnrouteTransition'\<close> both contain; \<open>kind\<close> is the chunk kind named in
  the message of the error.
\<close>

definition insertFoundFix ::
  "'r env \<Rightarrow> string \<Rightarrow> string \<Rightarrow> coordinates \<Rightarrow> 'r uplinkState \<Rightarrow> 'r uplinkState \<times> error option" where
  "insertFoundFix env kind chunkIdent locationHint st =
     (let fixes = searchAllFix env chunkIdent in
      if length fixes > 0 then
        (\<lparr> insertHead = insertHead st + 1,
           plan = nextWaypoint env (insertHead st)
                    (if length fixes > 1 then pickFix env fixes locationHint else arrayAt fixes 0)
                    (plan st) \<rparr>, None)
      else (st, Some (NotFound (NoFixes kind chunkIdent))))"

text \<open>
  The second half of the case \<^verbatim>\<open>'airway'\<close>, from \<^verbatim>\<open>if (airwaySearchFix)\<close> on.
\<close>

definition appendAirway ::
  "'r env \<Rightarrow> string \<Rightarrow> coordinates \<Rightarrow> Fix option \<Rightarrow> 'r uplinkState \<Rightarrow> 'r uplinkState \<times> error option" where
  "appendAirway env chunkIdent locationHint airwaySearchFix st =
     (case airwaySearchFix of
        None \<Rightarrow> (st, Some (NotFound (NoSearchFix chunkIdent)))
      | Some searchFix \<Rightarrow>
          (let airways = searchAirway env chunkIdent searchFix in
           if length airways > 0 then
             (case pendingAirways (plan st) of
                None \<Rightarrow> (st, Some TypeError)
              | Some pending \<Rightarrow>
                  (case pickAirway env airways locationHint of
                     Inl e \<Rightarrow> (st, Some e)
                   | Inr picked \<Rightarrow> (st\<lparr> plan := thenAirway env picked (plan st) \<rparr>, None)))
           else (st, Some (NotFound (NoAirways (ident searchFix) chunkIdent)))))"

text \<open>
  One iteration of the loop over \<^verbatim>\<open>route.chunks\<close>: the \<^verbatim>\<open>switch\<close> on the instruction
  of chunk number \<open>i\<close> of \<open>n\<close>. The result is the state after the iteration and the
  error thrown in it, if any; the state returned with an error is the one reached when
  it was thrown.
\<close>

fun processChunk ::
  "'r env \<Rightarrow> bool \<Rightarrow> OfpRoute \<Rightarrow> nat \<Rightarrow> nat \<Rightarrow> 'r uplinkState \<Rightarrow> chunk
     \<Rightarrow> 'r uplinkState \<times> error option" where
  "processChunk env doUplink route n i st (Procedure chunkIdent) =
     (if \<not> doUplink then (st, None)
      else if i \<noteq> 0 \<and> int i \<noteq> int n - 1 then (st, Some InvalidSequence)
      else if i = 0 then
        (let departureCandidates =
               filter (\<lambda>it. proc_ident it = chunkIdent)
                      (getDepartures env (from_ident route) (from_rwy route))
         in if length departureCandidates = 1 then
              (let p = setDepartureProcedure env (databaseId (departureCandidates ! 0)) (plan st)
               in (\<lparr> insertHead = setInsertHeadToEndOfEnroute env p, plan = p \<rparr>, None))
            else (st, None))
      else
        (let arrivalCandidates =
               filter (\<lambda>it. proc_ident it = chunkIdent) (getArrivals env (to_ident route))
         in if length arrivalCandidates = 1 then
              (let p = setArrival env (databaseId (arrivalCandidates ! 0)) (plan st)
               in (\<lparr> insertHead = setInsertHeadToEndOfEnroute env p, plan = p \<rparr>, None))
            else (st, None)))"
| "processChunk env doUplink route n i st (SidEnrouteTransition chunkIdent locationHint) =
     (if \<not> doUplink then
        insertFoundFix env ''sidEnrouteTransition'' chunkIdent locationHint st
      else
        (case originDeparture env (plan st) of
           None \<Rightarrow> (st, Some TypeError)
         | Some departure \<Rightarrow>
             (let candidateTransitions =
                    filter (\<lambda>it. proc_ident it = chunkIdent) (enrouteTransitions departure)
              in if length candidateTransitions = 1 then
                   (let p = setDepartureEnrouteTransition env
                              (databaseId (candidateTransitions ! 0)) (plan st)
                    in (\<lparr> insertHead = setInsertHeadToEndOfEnroute env p, plan = p \<rparr>, None))
                 else (st, None))))"
| "processChunk env doUplink route n i st (Waypoint chunkIdent locationHint) =
     insertFoundFix env ''waypoint'' chunkIdent locationHint (establishInsertHead env st)"
| "processChunk env doUplink route n i st (LatLong chunkLat chunkLong) =
     (let st1 = establishInsertHead env st;
          storedWaypoint = createLatLonWaypoint env \<lparr> lat = chunkLat, long = chunkLong \<rparr>
      in (\<lparr> insertHead = insertHead st1 + 1,
            plan = nextWaypoint env (insertHead st1) storedWaypoint (plan st1) \<rparr>, None))"
| "processChunk env doUplink route n i st (Airway chunkIdent locationHint) =
     (case pendingAirways (plan st) of
        None \<Rightarrow>
          (let st1 = st\<lparr> plan := startAirwayEntry env (insertHead st) (plan st) \<rparr> in
           case elementAt env (plan st1) (insertHead st1) of
             None \<Rightarrow> (st1, Some TypeError)
           | Some Discontinuity \<Rightarrow> appendAirway env chunkIdent locationHint None st1
           | Some (Leg terminationWaypoint) \<Rightarrow>
               appendAirway env chunkIdent locationHint terminationWaypoint st1)
      | Some pending \<Rightarrow>
          (case arrayAt (elements pending) (int (length (elements pending)) - 1) of
             None \<Rightarrow> (st, Some TypeError)
           | Some tailElement \<Rightarrow>
               appendAirway env chunkIdent locationHint
                 (case pe_to tailElement of
                    Some toFix \<Rightarrow> Some toFix
                  | None \<Rightarrow>
                      (case pe_airway tailElement of
                         None \<Rightarrow> None
                       | Some a \<Rightarrow> arrayAt (awy_fixes a) (int (length (awy_fixes a)) - 1)))
                 st))"
| "processChunk env doUplink route n i st (AirwayTermination chunkIdent) =
     (let st1 = (case pendingAirways (plan st) of
                   None \<Rightarrow> st\<lparr> plan := startAirwayEntry env (insertHead st) (plan st) \<rparr>
                 | Some pending \<Rightarrow> st)
      in case pendingAirways (plan st1) of
           None \<Rightarrow> (st1, Some TypeError)
         | Some pending \<Rightarrow>
             (case arrayAt (elements pending) (int (length (elements pending)) - 1) of
                None \<Rightarrow> (st1, Some TypeError)
              | Some tailElement \<Rightarrow>
                  (let tailAirway = pe_airway tailElement;
                       fixes = searchAllFix env chunkIdent
                   in if length fixes > 0 then
                        (case pickAirwayFix tailAirway fixes of
                           Inl e \<Rightarrow> (st1, Some e)
                         | Inr picked \<Rightarrow>
                             (ensureAirwaysFinalized env
                                (st1\<lparr> plan := thenTo env picked (plan st1) \<rparr>), None))
                      else (st1, Some (NotFound (NoFixes ''airwayTermination'' chunkIdent))))))"
| "processChunk env doUplink route n i st Dct = (st, None)"
| "processChunk env doUplink route n i st (StarEnrouteTransition chunkIdent) = (st, None)"

text \<open>
  The loop over \<^verbatim>\<open>route.chunks\<close>, from chunk number \<open>i\<close> on: an error ends the run, and
  the chunks after it are not looked at.
\<close>

fun processChunks ::
  "'r env \<Rightarrow> bool \<Rightarrow> OfpRoute \<Rightarrow> nat \<Rightarrow> nat \<Rightarrow> 'r uplinkState \<Rightarrow> chunk list
     \<Rightarrow> 'r uplinkState \<times> error option" where
  "processChunks env doUplink route n i st [] = (st, None)"
| "processChunks env doUplink route n i st (c # cs) =
     (case processChunk env doUplink route n i st c of
        (st1, Some e) \<Rightarrow> (st1, Some e)
      | (st1, None) \<Rightarrow> processChunks env doUplink route n (Suc i) st1 cs)"

text \<open>
  \<^verbatim>\<open>let insertHead = -1; ...; setInsertHeadToEndOfEnroute();\<close> before the loop.
\<close>

definition initialState :: "'r env \<Rightarrow> 'r FlightPlan \<Rightarrow> 'r uplinkState" where
  "initialState env p = \<lparr> insertHead = setInsertHeadToEndOfEnroute env p, plan = p \<rparr>"

text \<open>
  \<^verbatim>\<open>uplinkFlightPlanFromSimbrief\<close> from the declaration of \<^verbatim>\<open>insertHead\<close> to the end
  of the loop. The argument \<open>p\<close> is the uplink plan as the calls before that point
  (the new city pair, the runways, the performance data and the flight number) have
  left it; \<open>route\<close> is the result of \<^verbatim>\<open>getRouteFromOfp\<close>.
\<close>

definition uplinkFlightPlanFromSimbrief ::
  "'r env \<Rightarrow> SimBriefUplinkOptions \<Rightarrow> OfpRoute \<Rightarrow> 'r FlightPlan \<Rightarrow> 'r uplinkState \<times> error option" where
  "uplinkFlightPlanFromSimbrief env options route p =
     (let doUplink = (case doUplinkProcedures options of None \<Rightarrow> False | Some b \<Rightarrow> b)
      in processChunks env doUplink route (length (chunks route)) 0
           (initialState env p) (chunks route))"

section \<open>An environment for worked examples\<close>

text \<open>
  To evaluate the adapter on concrete inputs, the collaborators are instantiated by a
  small route model: the rest of the plan is the list of the legs of the en-route
  segment, the origin segment holds the legs \<open>originLegs\<close>, and the three departure
  segments are empty. \<open>nextWaypoint i f\<close> inserts a leg to \<open>f\<close> after the element
  with index \<open>i\<close>. The pending airways record the airways and the termination fix
  given to them, and finalizing appends one leg per recorded element. The distance is
  the sum of the differences in latitude and longitude, not-a-number as soon as one of
  the four numbers is. \<open>exampleParseFloat\<close> lists the values of \<^verbatim>\<open>parseFloat\<close> on
  the coordinate texts of the examples; the other texts used there do not start with a
  number.
\<close>

definition exampleParseFloat :: "string \<Rightarrow> jsnum" where
  "exampleParseFloat s =
     (if s = ''51.5'' then Num 51.5
      else if s = ''-0.25'' then Num (- 0.25)
      else if s = ''48'' then Num 48
      else if s = ''11'' then Num 11
      else NaN)"

fun exampleDistance :: "coordinates \<Rightarrow> coordinates \<Rightarrow> jsnum" where
  "exampleDistance a b =
     (case (lat a, long a, lat b, long b) of
        (Num x1, Num y1, Num x2, Num y2) \<Rightarrow> Num (\<bar>x1 - x2\<bar> + \<bar>y1 - y2\<bar>)
      | other \<Rightarrow> NaN)"

definition xyzFar :: Fix where
  "xyzFar = \<lparr> ident = ''XYZ'', icaoCode = ''K1'', location = \<lparr> lat = Num 40, long = Num 45 \<rparr> \<rparr>"

definition xyzNear :: Fix where
  "xyzNear = \<lparr> ident = ''XYZ'', icaoCode = ''ED'', location = \<lparr> lat = Num 10, long = Num 20 \<rparr> \<rparr>"

definition fixE :: Fix where
  "fixE = \<lparr> ident = ''E'', icaoCode = ''ED'', location = \<lparr> lat = Num 11, long = Num 21 \<rparr> \<rparr>"

definition fixF :: Fix where
  "fixF = \<lparr> ident = ''F'', icaoCode = ''ED'', location = \<lparr> lat = Num 12, long = Num 22 \<rparr> \<rparr>"

definition fixG :: Fix where
  "fixG = \<lparr> ident = ''G'', icaoCode = ''LF'', location = \<lparr> lat = Num 13, long = Num 23 \<rparr> \<rparr>"

definition exampleFixes :: "Fix list" where
  "exampleFixes = [xyzFar, xyzNear, fixE, fixF, fixG]"

definition airwayEF :: Airway where
  "airwayEF = \<lparr> awy_fixes = [fixE, fixF] \<rparr>"

definition exampleEnvWith :: "FlightPlanElement list \<Rightarrow> (FlightPlanElement list) env" where
  "exampleEnvWith originLegs =
     \<lparr> originLegCount = (\<lambda>p. length originLegs),
       departureRunwayTransitionLegCount = (\<lambda>p. 0),
       departureLegCount = (\<lambda>p. 0),
       departureEnrouteTransitionLegCount = (\<lambda>p. 0),
       enrouteLegCount = (\<lambda>p. length (rest p)),
       allLegs = (\<lambda>p. originLegs @ rest p),
       elementAt = (\<lambda>p i. arrayAt (originLegs @ rest p) i),
       originDeparture = (\<lambda>p. None),
       nextWaypoint = (\<lambda>i f p.
          p\<lparr> rest := take (nat (i + 1 - int (length originLegs))) (rest p) @ [Leg f]
                       @ drop (nat (i + 1 - int (length originLegs))) (rest p) \<rparr>),
       setDepartureProcedure = (\<lambda>d p. p),
       setArrival = (\<lambda>d p. p),
       setDepartureEnrouteTransition = (\<lambda>d p. p),
       startAirwayEntry = (\<lambda>i p. p\<lparr> pendingAirways := Some \<lparr> elements = [] \<rparr> \<rparr>),
       thenAirway = (\<lambda>a p.
          case pendingAirways p of
            None \<Rightarrow> p
          | Some pending \<Rightarrow>
              p\<lparr> pendingAirways :=
                   Some (pending\<lparr> elements :=
                           elements pending @ [\<lparr> pe_airway = a, pe_to = None \<rparr>] \<rparr>) \<rparr>),
       thenTo = (\<lambda>f p.
          case pendingAirways p of
            None \<Rightarrow> p
          | Some pending \<Rightarrow>
              p\<lparr> pendingAirways :=
                   Some (pending\<lparr> elements :=
                           butlast (elements pending)
                           @ map (\<lambda>e. e\<lparr> pe_to := f \<rparr>)
                                 (drop (length (elements pending) - 1) (elements pending)) \<rparr>) \<rparr>),
       finalize = (\<lambda>p.
          case pendingAirways p of
            None \<Rightarrow> p
          | Some pending \<Rightarrow> p\<lparr> rest := rest p @ map (\<lambda>e. Leg (pe_to e)) (elements pending) \<rparr>),
       createLatLonWaypoint = (\<lambda>c. Some \<lparr> ident = ''LL'', icaoCode = [], location = c \<rparr>),
       getDepartures = (\<lambda>airport rwy. []),
       getArrivals = (\<lambda>airport. []),
       searchAllFix = (\<lambda>chunkIdent. filter (\<lambda>f. ident f = chunkIdent) exampleFixes),
       searchAirway = (\<lambda>chunkIdent f.
          if chunkIdent = ''AWY1'' \<and> ident f = ''E'' then [airwayEF] else []),
       distanceTo = exampleDistance \<rparr>"

text \<open>
  The route after a new city pair, with the leg of the origin airport as the only leg
  of the origin segment, and a route without any leg.
\<close>

definition exampleEnv :: "(FlightPlanElement list) env" where
  "exampleEnv = exampleEnvWith [Leg None]"

definition emptyRouteEnv :: "(FlightPlanElement list) env" where
  "emptyRouteEnv = exampleEnvWith []"

definition emptyPlan :: "(FlightPlanElement list) FlightPlan" where
  "emptyPlan = \<lparr> pendingAirways = None, rest = [] \<rparr>"

definition exampleRoute :: "chunk list \<Rightarrow> OfpRoute" where
  "exampleRoute cs =
     \<lparr> from_ident = ''EGLL'', from_rwy = ''27L'', from_transAlt = Num 6000,
       to_ident = ''EDDM'', to_rwy = ''26R'', to_transLevel = Num 5000,
       altn = ''EDDN'', costIndex = Num 30, chunks = cs, callsign = ''TST123'' \<rparr>"

text \<open>
  The condition on the environment under which the insertion head is an index: the five
  segments counted by \<^verbatim>\<open>setInsertHeadToEndOfEnroute\<close> hold at least one leg between
  them, whatever the plan.
\<close>

definition routeNeverEmpty :: "'r env \<Rightarrow> bool" where
  "routeNeverEmpty env =
     (\<forall>p. 1 \<le> originLegCount env p
               + departureRunwayTransitionLegCount env p
               + departureLegCount env p
               + departureEnrouteTransitionLegCount env p
               + enrouteLegCount env p)"

section \<open>Facts used by the proofs\<close>

lemmas classifier_defs =
  generateRouteInstructionsFromNavlog_def pushFor_def endOfAirway_def
  lastInstructionOf_def isSkipped_def isDirect_def matchesNat_def hintOf_def

lemmas example_defs =
  exampleEnv_def emptyRouteEnv_def exampleEnvWith_def emptyPlan_def exampleRoute_def
  initialState_def setInsertHeadToEndOfEnroute_def establishInsertHead_def insertFoundFix_def
  uplinkFlightPlanFromSimbrief_def arrayAt_def exampleFixes_def xyzFar_def xyzNear_def
  fixE_def fixF_def fixG_def airwayEF_def pickFix_def pickAirway_def pickAirwayFix_def
  appendAirway_def ensureAirwaysFinalized_def MAX_SAFE_INTEGER_def

subsection \<open>The comparison of numbers\<close>

lemma jslt_trans: "jslt a b \<Longrightarrow> jslt b c \<Longrightarrow> jslt a c"
  by (cases a; cases b; cases c) auto

lemma jslt_irrefl: "\<not> jslt a a"
  by (cases a) auto

subsection \<open>The classifier on direct routings\<close>

lemma navlogLoop_direct:
  assumes "\<forall>f \<in> set navlog. isDirect (via_airway f) \<and> is_sid_star f \<noteq> ''1'' \<and> nf_type f \<noteq> ''ltlg''"
    and "\<not> isProcedure (lastInstructionOf acc)"
  shows "navlogLoop parseFloat lf navlog acc =
           acc @ map (\<lambda>f. Waypoint (nf_ident f) (hintOf parseFloat f))
                     (filter (\<lambda>f. \<not> isSkipped f) navlog)"
  using assms
proof (induction navlog arbitrary: lf acc)
  case Nil
  then show ?case by simp
next
  case (Cons x following)
  let ?w = "Waypoint (nf_ident x) (hintOf parseFloat x)"
  show ?case
  proof (cases "isSkipped x")
    case True
    then show ?thesis using Cons by simp
  next
    case False
    have np: "\<not> isProcedureFor (lastInstructionOf acc) (via_airway x)"
      using Cons.prems(2) by (cases "lastInstructionOf acc" rule: isProcedure.cases) auto
    have push: "pushFor parseFloat lf x acc = acc @ [?w]"
      using Cons.prems(1) np by (simp add: pushFor_def)
    have close: "endOfAirway x following (acc @ [?w]) = acc @ [?w]"
      by (simp add: endOfAirway_def lastInstructionOf_def)
    have "\<not> isProcedure (lastInstructionOf (acc @ [?w]))"
      by (simp add: lastInstructionOf_def)
    then show ?thesis
      using False Cons.IH[of "acc @ [?w]" "Some x"] Cons.prems(1) push close by simp
  qed
qed

subsection \<open>The nearest candidate\<close>

text \<open>
  The loop of \<^verbatim>\<open>pickFix\<close> either keeps the index it started with, and then no fix is
  nearer than the starting distance, or it returns the index of the first fix of least
  distance.
\<close>

lemma pickFixLoop_spec:
  "(pickFixLoop d fs h i m mi = mi \<and> (\<forall>f \<in> set fs. \<not> jslt (d (location f) h) m))
   \<or> (\<exists>k < length fs.
         pickFixLoop d fs h i m mi = int (i + k)
         \<and> jslt (d (location (fs ! k)) h) m
         \<and> (\<forall>j < length fs. \<not> jslt (d (location (fs ! j)) h) (d (location (fs ! k)) h))
         \<and> (\<forall>j < k. d (location (fs ! j)) h \<noteq> d (location (fs ! k)) h))"
proof (induction fs arbitrary: i m mi)
  case Nil
  then show ?case by simp
next
  case (Cons f fs)
  let ?D = "\<lambda>x. d (location x) h"
  show ?case
  proof (cases "jslt (?D f) m")
    case True
    from Cons.IH[of "Suc i" "?D f" "int i"] show ?thesis
    proof
      assume a: "pickFixLoop d fs h (Suc i) (?D f) (int i) = int i
                 \<and> (\<forall>x \<in> set fs. \<not> jslt (?D x) (?D f))"
      have "pickFixLoop d (f # fs) h i m mi = int (i + 0)" using True a by simp
      moreover have "\<forall>j < length (f # fs). \<not> jslt (?D ((f # fs) ! j)) (?D ((f # fs) ! 0))"
        using a jslt_irrefl by (auto simp: nth_Cons')
      ultimately have "\<exists>k < length (f # fs).
         pickFixLoop d (f # fs) h i m mi = int (i + k)
         \<and> jslt (?D ((f # fs) ! k)) m
         \<and> (\<forall>j < length (f # fs). \<not> jslt (?D ((f # fs) ! j)) (?D ((f # fs) ! k)))
         \<and> (\<forall>j < k. ?D ((f # fs) ! j) \<noteq> ?D ((f # fs) ! k))"
        using True by (intro exI[of _ 0]) simp
      then show ?thesis by blast
    next
      assume "\<exists>k < length fs.
         pickFixLoop d fs h (Suc i) (?D f) (int i) = int (Suc i + k)
         \<and> jslt (?D (fs ! k)) (?D f)
         \<and> (\<forall>j < length fs. \<not> jslt (?D (fs ! j)) (?D (fs ! k)))
         \<and> (\<forall>j < k. ?D (fs ! j) \<noteq> ?D (fs ! k))"
      then obtain k where k: "k < length fs"
        "pickFixLoop d fs h (Suc i) (?D f) (int i) = int (Suc i + k)"
        "jslt (?D (fs ! k)) (?D f)"
        "\<forall>j < length fs. \<not> jslt (?D (fs ! j)) (?D (fs ! k))"
        "\<forall>j < k. ?D (fs ! j) \<noteq> ?D (fs ! k)" by blast
      have r: "pickFixLoop d (f # fs) h i m mi = int (i + Suc k)" using True k(2) by simp
      have lt: "jslt (?D ((f # fs) ! Suc k)) m"
        using k(3) True jslt_trans[of "?D (fs ! k)" "?D f" m] by simp
      have nf: "\<not> jslt (?D f) (?D (fs ! k))" using k(3) jslt_trans jslt_irrefl by blast
      have mn: "\<forall>j < length (f # fs). \<not> jslt (?D ((f # fs) ! j)) (?D ((f # fs) ! Suc k))"
        using nf k(4) by (auto simp: nth_Cons split: nat.splits)
      have ne: "?D f \<noteq> ?D (fs ! k)" using k(3) jslt_irrefl by metis
      have tb: "\<forall>j < Suc k. ?D ((f # fs) ! j) \<noteq> ?D ((f # fs) ! Suc k)"
        using ne k(5) by (auto simp: nth_Cons split: nat.splits)
      have "Suc k < length (f # fs)" using k(1) by simp
      then show ?thesis using r lt mn tb by blast
    qed
  next
    case False
    from Cons.IH[of "Suc i" m mi] show ?thesis
    proof
      assume "pickFixLoop d fs h (Suc i) m mi = mi \<and> (\<forall>x \<in> set fs. \<not> jslt (?D x) m)"
      then show ?thesis using False by simp
    next
      assume "\<exists>k < length fs.
         pickFixLoop d fs h (Suc i) m mi = int (Suc i + k)
         \<and> jslt (?D (fs ! k)) m
         \<and> (\<forall>j < length fs. \<not> jslt (?D (fs ! j)) (?D (fs ! k)))
         \<and> (\<forall>j < k. ?D (fs ! j) \<noteq> ?D (fs ! k))"
      then obtain k where k: "k < length fs"
        "pickFixLoop d fs h (Suc i) m mi = int (Suc i + k)"
        "jslt (?D (fs ! k)) m"
        "\<forall>j < length fs. \<not> jslt (?D (fs ! j)) (?D (fs ! k))"
        "\<forall>j < k. ?D (fs ! j) \<noteq> ?D (fs ! k)" by blast
      have r: "pickFixLoop d (f # fs) h i m mi = int (i + Suc k)" using False k(2) by simp
      have lt: "jslt (?D ((f # fs) ! Suc k)) m" using k(3) by simp
      have nf: "\<not> jslt (?D f) (?D (fs ! k))" using k(3) False jslt_trans by blast
      have mn: "\<forall>j < length (f # fs). \<not> jslt (?D ((f # fs) ! j)) (?D ((f # fs) ! Suc k))"
        using nf k(4) by (auto simp: nth_Cons split: nat.splits)
      have ne: "?D f \<noteq> ?D (fs ! k)" using k(3) False by metis
      have tb: "\<forall>j < Suc k. ?D ((f # fs) ! j) \<noteq> ?D ((f # fs) ! Suc k)"
        using ne k(5) by (auto simp: nth_Cons split: nat.splits)
      have "Suc k < length (f # fs)" using k(1) by simp
      then show ?thesis using r lt mn tb by blast
    qed
  qed
qed

lemma pickFix_nearest:
  assumes "\<exists>f \<in> set cands. jslt (distanceTo env (location f) hint) MAX_SAFE_INTEGER"
  shows "\<exists>k < length cands.
           pickFix env cands hint = Some (cands ! k)
           \<and> (\<forall>j < length cands. \<not> jslt (distanceTo env (location (cands ! j)) hint)
                                         (distanceTo env (location (cands ! k)) hint))
           \<and> (\<forall>j < k. distanceTo env (location (cands ! j)) hint
                        \<noteq> distanceTo env (location (cands ! k)) hint)"
proof -
  from pickFixLoop_spec[of "distanceTo env" cands hint 0 MAX_SAFE_INTEGER "- 1"] assms
  obtain k where k: "k < length cands"
    "pickFixLoop (distanceTo env) cands hint 0 MAX_SAFE_INTEGER (- 1) = int (0 + k)"
    "\<forall>j < length cands. \<not> jslt (distanceTo env (location (cands ! j)) hint)
                                         (distanceTo env (location (cands ! k)) hint)"
    "\<forall>j < k. distanceTo env (location (cands ! j)) hint
                        \<noteq> distanceTo env (location (cands ! k)) hint"
    by blast
  have "pickFix env cands hint = Some (cands ! k)"
    using k(1,2) by (simp add: pickFix_def arrayAt_def)
  then show ?thesis using k by blast
qed

lemma pickFix_all_NaN:
  assumes "\<forall>f \<in> set cands. distanceTo env (location f) hint = NaN"
  shows "pickFix env cands hint = None"
proof -
  have "pickFixLoop d fs hint i m mi = mi"
    if "\<forall>f \<in> set fs. d (location f) hint = NaN" for d fs i m mi
    using that by (induction fs arbitrary: i) simp_all
  then show ?thesis using assms by (simp add: pickFix_def arrayAt_def)
qed

subsection \<open>The loop over the chunks\<close>

lemma processChunks_append:
  "processChunks env d route n i st (xs @ ys) =
     (case processChunks env d route n i st xs of
        (st1, Some e) \<Rightarrow> (st1, Some e)
      | (st1, None) \<Rightarrow> processChunks env d route n (i + length xs) st1 ys)"
  by (induction xs arbitrary: i st) (auto split: prod.splits option.splits)

subsection \<open>The insertion head on a route that is never empty\<close>

lemma setInsertHead_nonneg:
  assumes "routeNeverEmpty env"
  shows "0 \<le> setInsertHeadToEndOfEnroute env p"
proof -
  let ?total = "originLegCount env p + departureRunwayTransitionLegCount env p
                 + departureLegCount env p + departureEnrouteTransitionLegCount env p
                 + enrouteLegCount env p"
  have t: "1 \<le> ?total" using assms unfolding routeNeverEmpty_def by blast
  have e: "enrouteLegCount env p \<le> ?total" by simp
  show ?thesis
  proof (cases "enrouteLegCount env p > 1")
    case True
    then have "2 \<le> ?total" using e by linarith
    then have "0 \<le> int ?total - 1 - 1" by linarith
    then show ?thesis using True
      by (auto simp: setInsertHeadToEndOfEnroute_def Let_def
               split: option.splits FlightPlanElement.splits)
  next
    case False
    then show ?thesis using t by (simp add: setInsertHeadToEndOfEnroute_def Let_def)
  qed
qed

lemma establish_nonneg: "0 \<le> insertHead st \<Longrightarrow> establishInsertHead env st = st"
  by (simp add: establishInsertHead_def)

lemma insertFoundFix_nonneg:
  "0 \<le> insertHead st \<Longrightarrow> 0 \<le> insertHead (fst (insertFoundFix env kind cid h st))"
  by (simp add: insertFoundFix_def Let_def)

lemma appendAirway_insertHead:
  "insertHead (fst (appendAirway env cid h sf st)) = insertHead st"
  by (simp add: appendAirway_def Let_def split: option.splits sum.splits)

lemma ensureAirwaysFinalized_nonneg:
  "routeNeverEmpty env \<Longrightarrow> 0 \<le> insertHead st
     \<Longrightarrow> 0 \<le> insertHead (ensureAirwaysFinalized env st)"
  by (simp add: ensureAirwaysFinalized_def Let_def setInsertHead_nonneg split: option.splits)

lemma processChunk_nonneg:
  assumes "routeNeverEmpty env" and "0 \<le> insertHead st"
  shows "0 \<le> insertHead (fst (processChunk env d route n i st c))"
proof (cases c)
  case (Airway cid h)
  then show ?thesis using assms(2)
    by (simp add: Let_def appendAirway_insertHead split: option.splits FlightPlanElement.splits)
next
  case (AirwayTermination cid)
  then show ?thesis using assms
    by (simp add: Let_def ensureAirwaysFinalized_nonneg split: option.splits sum.splits)
next
  case (Waypoint cid h)
  then show ?thesis using assms(2) by (simp add: establish_nonneg insertFoundFix_nonneg)
next
  case (LatLong la lo)
  then show ?thesis using assms(2) by (simp add: establish_nonneg Let_def)
next
  case Dct
  then show ?thesis using assms(2) by simp
next
  case (Procedure cid)
  then show ?thesis using assms by (simp add: Let_def setInsertHead_nonneg)
next
  case (SidEnrouteTransition cid h)
  then show ?thesis using assms
    by (simp add: Let_def setInsertHead_nonneg insertFoundFix_nonneg split: option.splits)
next
  case (StarEnrouteTransition cid)
  then show ?thesis using assms(2) by simp
qed

lemma processChunks_nonneg:
  assumes "routeNeverEmpty env" and "0 \<le> insertHead st"
  shows "0 \<le> insertHead (fst (processChunks env d route n i st cs))"
  using assms(2)
proof (induction cs arbitrary: i st)
  case Nil
  then show ?case by simp
next
  case (Cons c cs)
  have s: "0 \<le> insertHead (fst (processChunk env d route n i st c))"
    using processChunk_nonneg[OF assms(1) Cons.prems] .
  show ?case
  proof (cases "processChunk env d route n i st c")
    case (Pair st1 r)
    then show ?thesis using s Cons.IH[of st1 "Suc i"] by (cases r) simp_all
  qed
qed

section \<open>The claims about the classifier\<close>

text \<open>
  Claim C1. For the fixes [an airport; A via SIDX marked SID/STAR; B via SIDX marked
  SID/STAR; C via SIDX not marked, with coordinates; D via DCT; E via AWY1; F via AWY1;
  G via DCT] the classifier returns exactly the six chunks Procedure(SIDX),
  SidEnrouteTransition(C), Waypoint(D), Airway(AWY1), AirwayTermination(F), Waypoint(G),
  in that order. The coordinate texts, the fields of the airport entry other than its
  type, and \<^verbatim>\<open>parseFloat\<close> are arbitrary; where the example names no type tag
  or SID/STAR flag, the fix is an ordinary waypoint (\<^verbatim>\<open>wpt\<close>) that is not marked
  (\<^verbatim>\<open>0\<close>).
\<close>

theorem classify_spec_example:
  "generateRouteInstructionsFromNavlog parseFloat
     [\<lparr> nf_ident = aptIdent, nf_type = ''apt'', pos_lat = la0, pos_long = lo0,
         via_airway = aptVia, is_sid_star = aptSid \<rparr>,
      \<lparr> nf_ident = ''A'', nf_type = ''wpt'', pos_lat = la1, pos_long = lo1,
         via_airway = ''SIDX'', is_sid_star = ''1'' \<rparr>,
      \<lparr> nf_ident = ''B'', nf_type = ''wpt'', pos_lat = la2, pos_long = lo2,
         via_airway = ''SIDX'', is_sid_star = ''1'' \<rparr>,
      \<lparr> nf_ident = ''C'', nf_type = ''wpt'', pos_lat = la3, pos_long = lo3,
         via_airway = ''SIDX'', is_sid_star = ''0'' \<rparr>,
      \<lparr> nf_ident = ''D'', nf_type = ''wpt'', pos_lat = la4, pos_long = lo4,
         via_airway = ''DCT'', is_sid_star = ''0'' \<rparr>,
      \<lparr> nf_ident = ''E'', nf_type = ''wpt'', pos_lat = la5, pos_long = lo5,
         via_airway = ''AWY1'', is_sid_star = ''0'' \<rparr>,
      \<lparr> nf_ident = ''F'', nf_type = ''wpt'', pos_lat = la6, pos_long = lo6,
         via_airway = ''AWY1'', is_sid_star = ''0'' \<rparr>,
      \<lparr> nf_ident = ''G'', nf_type = ''wpt'', pos_lat = la7, pos_long = lo7,
         via_airway = ''DCT'', is_sid_star = ''0'' \<rparr>]
   = [Procedure ''SIDX'',
      SidEnrouteTransition ''C'' \<lparr> lat = parseFloat la3, long = parseFloat lo3 \<rparr>,
      Waypoint ''D'' \<lparr> lat = parseFloat la4, long = parseFloat lo4 \<rparr>,
      Airway ''AWY1'' \<lparr> lat = parseFloat la5, long = parseFloat lo5 \<rparr>,
      AirwayTermination ''F'',
      Waypoint ''G'' \<lparr> lat = parseFloat la7, long = parseFloat lo7 \<rparr>]"
  by (simp add: classifier_defs)

text \<open>
  Claim C2, as stated: when every fix carries the same via-identifier, none is marked
  SID/STAR and none has the coordinate type, the classifier emits only Waypoint chunks.
  Two fixes A and B, both via AWY1, satisfy the three conditions, and the chunks are a
  Waypoint, an Airway and an AirwayTermination.
\<close>

theorem classify_same_via_not_only_waypoints:
  "generateRouteInstructionsFromNavlog exampleParseFloat
     [\<lparr> nf_ident = ''A'', nf_type = ''wpt'', pos_lat = ''51.5'', pos_long = ''-0.25'',
         via_airway = ''AWY1'', is_sid_star = ''0'' \<rparr>,
      \<lparr> nf_ident = ''B'', nf_type = ''wpt'', pos_lat = ''48'', pos_long = ''11'',
         via_airway = ''AWY1'', is_sid_star = ''0'' \<rparr>]
   = [Waypoint ''A'' \<lparr> lat = Num 51.5, long = Num (- 0.25) \<rparr>,
      Airway ''AWY1'' \<lparr> lat = Num 48, long = Num 11 \<rparr>,
      AirwayTermination ''B'']"
  by (simp add: classifier_defs exampleParseFloat_def)

text \<open>
  Claim C2, amended: when every fix carries the same via-identifier and that identifier
  is a direct-routing marker (DCT, DCT*, or NAT followed by one capital letter), no fix
  is marked SID/STAR and no fix has the coordinate type, the classifier emits only
  Waypoint chunks: exactly one per fix that is neither an airport nor a TOC/TOD marker,
  in input order, each with the identifier and the parsed coordinates of its fix.
\<close>

theorem classify_direct_waypoints_only:
  assumes "\<forall>f \<in> set navlog. via_airway f = v"
    and "isDirect v"
    and "\<forall>f \<in> set navlog. is_sid_star f \<noteq> ''1''"
    and "\<forall>f \<in> set navlog. nf_type f \<noteq> ''ltlg''"
  shows "generateRouteInstructionsFromNavlog parseFloat navlog =
           map (\<lambda>f. Waypoint (nf_ident f) (hintOf parseFloat f))
               (filter (\<lambda>f. \<not> isSkipped f) navlog)"
proof -
  have "\<forall>f \<in> set navlog. isDirect (via_airway f) \<and> is_sid_star f \<noteq> ''1'' \<and> nf_type f \<noteq> ''ltlg''"
    using assms by simp
  moreover have "\<not> isProcedure (lastInstructionOf [])"
    by (simp add: lastInstructionOf_def)
  ultimately have "navlogLoop parseFloat None navlog [] =
           [] @ map (\<lambda>f. Waypoint (nf_ident f) (hintOf parseFloat f))
                    (filter (\<lambda>f. \<not> isSkipped f) navlog)"
    by (rule navlogLoop_direct)
  then show ?thesis by (simp add: generateRouteInstructionsFromNavlog_def)
qed

theorem classify_direct_waypoints_only_witness:
  "isDirect ''DCT''
   \<and> generateRouteInstructionsFromNavlog exampleParseFloat
       [\<lparr> nf_ident = ''EGLL'', nf_type = ''apt'', pos_lat = ''51.5'', pos_long = ''-0.25'',
           via_airway = ''DCT'', is_sid_star = ''0'' \<rparr>,
        \<lparr> nf_ident = ''A'', nf_type = ''wpt'', pos_lat = ''51.5'', pos_long = ''-0.25'',
           via_airway = ''DCT'', is_sid_star = ''0'' \<rparr>,
        \<lparr> nf_ident = ''TOC'', nf_type = ''wpt'', pos_lat = ''48'', pos_long = ''11'',
           via_airway = ''DCT'', is_sid_star = ''0'' \<rparr>,
        \<lparr> nf_ident = ''B'', nf_type = ''wpt'', pos_lat = ''48'', pos_long = ''11'',
           via_airway = ''DCT'', is_sid_star = ''0'' \<rparr>]
     = [Waypoint ''A'' \<lparr> lat = Num 51.5, long = Num (- 0.25) \<rparr>,
        Waypoint ''B'' \<lparr> lat = Num 48, long = Num 11 \<rparr>]"
proof -
  let ?navlog =
    "[\<lparr> nf_ident = ''EGLL'', nf_type = ''apt'', pos_lat = ''51.5'', pos_long = ''-0.25'',
         via_airway = ''DCT'', is_sid_star = ''0'' \<rparr>,
      \<lparr> nf_ident = ''A'', nf_type = ''wpt'', pos_lat = ''51.5'', pos_long = ''-0.25'',
         via_airway = ''DCT'', is_sid_star = ''0'' \<rparr>,
      \<lparr> nf_ident = ''TOC'', nf_type = ''wpt'', pos_lat = ''48'', pos_long = ''11'',
         via_airway = ''DCT'', is_sid_star = ''0'' \<rparr>,
      \<lparr> nf_ident = ''B'', nf_type = ''wpt'', pos_lat = ''48'', pos_long = ''11'',
         via_airway = ''DCT'', is_sid_star = ''0'' \<rparr>]"
  have h1: "\<forall>f \<in> set ?navlog. via_airway f = ''DCT''" by simp
  have h2: "isDirect ''DCT''" by (simp add: isDirect_def)
  have h3: "\<forall>f \<in> set ?navlog. is_sid_star f \<noteq> ''1''" by simp
  have h4: "\<forall>f \<in> set ?navlog. nf_type f \<noteq> ''ltlg''" by simp
  from classify_direct_waypoints_only[OF h1 h2 h3 h4, of exampleParseFloat]
  have "generateRouteInstructionsFromNavlog exampleParseFloat ?navlog
          = [Waypoint ''A'' \<lparr> lat = Num 51.5, long = Num (- 0.25) \<rparr>,
             Waypoint ''B'' \<lparr> lat = Num 48, long = Num 11 \<rparr>]"
    by (simp add: isSkipped_def hintOf_def exampleParseFloat_def)
  then show ?thesis using h2 by blast
qed

text \<open>
  Claim C3: every Airway chunk of the output is followed, before the output ends and
  before any chunk of a fix with another via-identifier, by exactly one
  AirwayTermination. On the fixes D via DCT, E via AWY1, TOC via AWY1, G via DCT the
  closing test at E sees the same via-identifier on the next entry, the TOC entry is
  skipped before the closing test, and G is a direct waypoint: Airway(AWY1) is followed
  by Waypoint(G) and by no AirwayTermination.
\<close>

theorem classify_airway_not_terminated:
  "generateRouteInstructionsFromNavlog exampleParseFloat
     [\<lparr> nf_ident = ''D'', nf_type = ''wpt'', pos_lat = ''51.5'', pos_long = ''-0.25'',
         via_airway = ''DCT'', is_sid_star = ''0'' \<rparr>,
      \<lparr> nf_ident = ''E'', nf_type = ''wpt'', pos_lat = ''48'', pos_long = ''11'',
         via_airway = ''AWY1'', is_sid_star = ''0'' \<rparr>,
      \<lparr> nf_ident = ''TOC'', nf_type = ''wpt'', pos_lat = ''48'', pos_long = ''11'',
         via_airway = ''AWY1'', is_sid_star = ''0'' \<rparr>,
      \<lparr> nf_ident = ''G'', nf_type = ''wpt'', pos_lat = ''48'', pos_long = ''11'',
         via_airway = ''DCT'', is_sid_star = ''0'' \<rparr>]
   = [Waypoint ''D'' \<lparr> lat = Num 51.5, long = Num (- 0.25) \<rparr>,
      Airway ''AWY1'' \<lparr> lat = Num 48, long = Num 11 \<rparr>,
      Waypoint ''G'' \<lparr> lat = Num 48, long = Num 11 \<rparr>]"
  by (simp add: classifier_defs exampleParseFloat_def)

text \<open>
  Claim C4: a fix marked SID/STAR emits a Procedure chunk unless the preceding chunk is a
  Procedure for the same via-identifier, so that two consecutive SID/STAR fixes with
  different via-identifiers give two Procedure chunks. On the fixes A via SID1 and B via
  STAR1, both marked SID/STAR, the classifier returns the single chunk Procedure(SID1):
  the test before the push looks at the kind of the preceding chunk only.
\<close>

theorem classify_second_procedure_dropped:
  "generateRouteInstructionsFromNavlog exampleParseFloat
     [\<lparr> nf_ident = ''A'', nf_type = ''wpt'', pos_lat = ''51.5'', pos_long = ''-0.25'',
         via_airway = ''SID1'', is_sid_star = ''1'' \<rparr>,
      \<lparr> nf_ident = ''B'', nf_type = ''wpt'', pos_lat = ''48'', pos_long = ''11'',
         via_airway = ''STAR1'', is_sid_star = ''1'' \<rparr>]
   = [Procedure ''SID1'']"
  by (simp add: classifier_defs exampleParseFloat_def)

section \<open>The claims about the synthesizer\<close>

text \<open>
  Claim C5, as stated: a Procedure chunk that is neither the first nor the last chunk
  makes the run fail with InvalidSequence, in particular as the second of three chunks.
  With the option for uplinking procedures absent (which is the same as false) the
  chunk is passed over: the run of the three chunks LatLong, Procedure, LatLong ends
  without error, and both coordinate waypoints are inserted.
\<close>

theorem procedure_in_middle_ignored_when_disabled:
  "uplinkFlightPlanFromSimbrief exampleEnv \<lparr> doUplinkProcedures = None \<rparr>
     (exampleRoute [LatLong (Num 1) (Num 2), Procedure ''SIDX'', LatLong (Num 3) (Num 4)])
     emptyPlan
   = (\<lparr> insertHead = 2,
        plan = \<lparr> pendingAirways = None,
                 rest = [Leg (Some \<lparr> ident = ''LL'', icaoCode = [],
                                     location = \<lparr> lat = Num 1, long = Num 2 \<rparr> \<rparr>),
                         Leg (Some \<lparr> ident = ''LL'', icaoCode = [],
                                     location = \<lparr> lat = Num 3, long = Num 4 \<rparr> \<rparr>)] \<rparr> \<rparr>,
      None)"
  by (simp add: example_defs)

text \<open>
  Claim C5, amended: when procedures are uplinked, a Procedure chunk that is neither the
  first nor the last chunk of the route, and that is reached because the chunks before
  it were applied without error, makes the run fail with InvalidSequence; the state of
  the failed run is the state left by the chunks before it, so that neither this chunk
  nor any later one is applied. This covers every three-chunk route whose second chunk
  is a Procedure and whose first chunk is applied without error.
\<close>

theorem procedure_in_middle_invalid:
  assumes "doUplinkProcedures options = Some True"
    and "chunks route = pre @ Procedure chunkIdent # post"
    and "pre \<noteq> []" and "post \<noteq> []"
    and "processChunks env True route (length (chunks route)) 0 (initialState env p) pre
           = (st, None)"
  shows "uplinkFlightPlanFromSimbrief env options route p = (st, Some InvalidSequence)"
proof -
  have "length pre \<noteq> 0" using assms(3) by simp
  moreover have "int (length pre) \<noteq> int (length (chunks route)) - 1"
    using assms(2,4) by (cases post) auto
  ultimately have "processChunk env True route (length (chunks route)) (length pre) st
                     (Procedure chunkIdent) = (st, Some InvalidSequence)"
    by simp
  then have "processChunks env True route (length (chunks route)) 0 (initialState env p)
               (pre @ Procedure chunkIdent # post) = (st, Some InvalidSequence)"
    using assms(5) by (simp add: processChunks_append)
  then show ?thesis using assms(1,2) by (simp add: uplinkFlightPlanFromSimbrief_def)
qed

theorem procedure_in_middle_invalid_witness:
  "uplinkFlightPlanFromSimbrief exampleEnv \<lparr> doUplinkProcedures = Some True \<rparr>
     (exampleRoute [LatLong (Num 1) (Num 2), Procedure ''SIDX'', LatLong (Num 3) (Num 4)])
     emptyPlan
   = (\<lparr> insertHead = 1,
        plan = \<lparr> pendingAirways = None,
                 rest = [Leg (Some \<lparr> ident = ''LL'', icaoCode = [],
                                     location = \<lparr> lat = Num 1, long = Num 2 \<rparr> \<rparr>)] \<rparr> \<rparr>,
      Some InvalidSequence)"
proof -
  let ?route = "exampleRoute [LatLong (Num 1) (Num 2), Procedure ''SIDX'', LatLong (Num 3) (Num 4)]"
  let ?st = "\<lparr> insertHead = 1,
        plan = \<lparr> pendingAirways = None,
                 rest = [Leg (Some \<lparr> ident = ''LL'', icaoCode = [],
                                     location = \<lparr> lat = Num 1, long = Num 2 \<rparr> \<rparr>)] \<rparr> \<rparr>"
  have 1: "doUplinkProcedures \<lparr> doUplinkProcedures = Some True \<rparr> = Some True" by simp
  have 2: "chunks ?route
             = [LatLong (Num 1) (Num 2)] @ Procedure ''SIDX'' # [LatLong (Num 3) (Num 4)]"
    by (simp add: exampleRoute_def)
  have 3: "[LatLong (Num 1) (Num 2)] \<noteq> []" by simp
  have 4: "[LatLong (Num 3) (Num 4)] \<noteq> []" by simp
  have 5: "processChunks exampleEnv True ?route (length (chunks ?route)) 0
             (initialState exampleEnv emptyPlan) [LatLong (Num 1) (Num 2)] = (?st, None)"
    by (simp add: example_defs)
  show ?thesis using procedure_in_middle_invalid[OF 1 2 3 4 5] .
qed

text \<open>
  Claim C6. A Waypoint chunk whose lookup returns no fix fails the run with NotFound and
  inserts no leg. The run stops at this chunk whatever follows it; the plan is the plan
  before the chunk; and the insertion head is not advanced: an insertion head that is an
  index is left as it is (one that is still \<open>-1\<close> is first computed from the unchanged
  plan by the opening statement of the case).
\<close>

theorem waypoint_not_found:
  assumes "searchAllFix env chunkIdent = []"
  shows "processChunks env doUplink route n i st (Waypoint chunkIdent locationHint # cs)
           = (establishInsertHead env st, Some (NotFound (NoFixes ''waypoint'' chunkIdent)))
         \<and> plan (establishInsertHead env st) = plan st
         \<and> (insertHead st \<noteq> - 1 \<longrightarrow> establishInsertHead env st = st)"
  using assms by (simp add: insertFoundFix_def establishInsertHead_def)

theorem waypoint_not_found_witness:
  "searchAllFix exampleEnv ''ABCDE'' = []
   \<and> processChunks exampleEnv False
       (exampleRoute [Waypoint ''ABCDE'' \<lparr> lat = Num 1, long = Num 2 \<rparr>]) 1 0
       (initialState exampleEnv emptyPlan) [Waypoint ''ABCDE'' \<lparr> lat = Num 1, long = Num 2 \<rparr>]
     = (initialState exampleEnv emptyPlan, Some (NotFound (NoFixes ''waypoint'' ''ABCDE'')))
   \<and> initialState exampleEnv emptyPlan = \<lparr> insertHead = 0, plan = emptyPlan \<rparr>"
proof -
  have h: "searchAllFix exampleEnv ''ABCDE'' = []" by (simp add: example_defs)
  have ih: "insertHead (initialState exampleEnv emptyPlan) \<noteq> - 1" by (simp add: example_defs)
  note r = waypoint_not_found[OF h, of False
              "exampleRoute [Waypoint ''ABCDE'' \<lparr> lat = Num 1, long = Num 2 \<rparr>]" 1 0
              "initialState exampleEnv emptyPlan" "\<lparr> lat = Num 1, long = Num 2 \<rparr>" "[]"]
  from r ih have e: "establishInsertHead exampleEnv (initialState exampleEnv emptyPlan)
                      = initialState exampleEnv emptyPlan" by blast
  from r have "processChunks exampleEnv False
       (exampleRoute [Waypoint ''ABCDE'' \<lparr> lat = Num 1, long = Num 2 \<rparr>]) 1 0
       (initialState exampleEnv emptyPlan) [Waypoint ''ABCDE'' \<lparr> lat = Num 1, long = Num 2 \<rparr>]
     = (initialState exampleEnv emptyPlan, Some (NotFound (NoFixes ''waypoint'' ''ABCDE'')))"
    unfolding e by blast
  moreover have "initialState exampleEnv emptyPlan = \<lparr> insertHead = 0, plan = emptyPlan \<rparr>"
    by (simp add: example_defs)
  ultimately show ?thesis using h by blast
qed

text \<open>
  Claim C7, as stated: when the lookup of a Waypoint chunk returns more than one
  candidate, the candidate nearest to the location hint is inserted. With a hint whose
  coordinates are not-a-number the two candidates named XYZ are both at a distance that
  is not-a-number, no comparison succeeds, and the leg that is inserted has neither of
  them as its fix.
\<close>

theorem waypoint_nan_hint_inserts_no_candidate:
  "searchAllFix exampleEnv ''XYZ'' = [xyzFar, xyzNear]
   \<and> processChunk exampleEnv False (exampleRoute [Waypoint ''XYZ'' \<lparr> lat = NaN, long = NaN \<rparr>]) 1 0
       (initialState exampleEnv emptyPlan) (Waypoint ''XYZ'' \<lparr> lat = NaN, long = NaN \<rparr>)
     = (\<lparr> insertHead = 1, plan = \<lparr> pendingAirways = None, rest = [Leg None] \<rparr> \<rparr>, None)"
  by (simp add: example_defs)

text \<open>
  Claim C7, amended: when the lookup of a Waypoint chunk returns more than one candidate
  and at least one candidate is at a distance from the location hint that is below
  \<^verbatim>\<open>Number.MAX_SAFE_INTEGER\<close>, the chunk inserts, at the insertion head, one of the
  candidates: no candidate is nearer to the hint than it, and no candidate before it in
  lookup order is at the same distance. The insertion head advances by one. For two
  candidates at the distances 5 and 50, the one at distance 5 is inserted.
\<close>

theorem waypoint_nearest_candidate:
  assumes "searchAllFix env chunkIdent = cands"
    and "length cands > 1"
    and "\<exists>f \<in> set cands. jslt (distanceTo env (location f) locationHint) MAX_SAFE_INTEGER"
  shows "\<exists>k < length cands.
           processChunk env doUplink route n i st (Waypoint chunkIdent locationHint)
             = (\<lparr> insertHead = insertHead (establishInsertHead env st) + 1,
                  plan = nextWaypoint env (insertHead (establishInsertHead env st))
                           (Some (cands ! k)) (plan st) \<rparr>, None)
           \<and> (\<forall>j < length cands. \<not> jslt (distanceTo env (location (cands ! j)) locationHint)
                                         (distanceTo env (location (cands ! k)) locationHint))
           \<and> (\<forall>j < k. distanceTo env (location (cands ! j)) locationHint
                        \<noteq> distanceTo env (location (cands ! k)) locationHint)"
proof -
  from pickFix_nearest[OF assms(3)] obtain k where k: "k < length cands"
    "pickFix env cands locationHint = Some (cands ! k)"
    "\<forall>j < length cands. \<not> jslt (distanceTo env (location (cands ! j)) locationHint)
                                         (distanceTo env (location (cands ! k)) locationHint)"
    "\<forall>j < k. distanceTo env (location (cands ! j)) locationHint
                        \<noteq> distanceTo env (location (cands ! k)) locationHint"
    by blast
  have "processChunk env doUplink route n i st (Waypoint chunkIdent locationHint)
             = (\<lparr> insertHead = insertHead (establishInsertHead env st) + 1,
                  plan = nextWaypoint env (insertHead (establishInsertHead env st))
                           (Some (cands ! k)) (plan st) \<rparr>, None)"
    using assms(1,2) k(2) by (auto simp: insertFoundFix_def establishInsertHead_def)
  then show ?thesis using k by blast
qed

theorem waypoint_nearest_candidate_witness:
  "searchAllFix exampleEnv ''XYZ'' = [xyzFar, xyzNear]
   \<and> distanceTo exampleEnv (location xyzFar) \<lparr> lat = Num 10, long = Num 25 \<rparr> = Num 50
   \<and> distanceTo exampleEnv (location xyzNear) \<lparr> lat = Num 10, long = Num 25 \<rparr> = Num 5
   \<and> (\<exists>k < length [xyzFar, xyzNear].
         processChunk exampleEnv False (exampleRoute []) 1 0 (initialState exampleEnv emptyPlan)
           (Waypoint ''XYZ'' \<lparr> lat = Num 10, long = Num 25 \<rparr>)
         = (\<lparr> insertHead =
                insertHead (establishInsertHead exampleEnv (initialState exampleEnv emptyPlan)) + 1,
              plan = nextWaypoint exampleEnv
                       (insertHead (establishInsertHead exampleEnv (initialState exampleEnv emptyPlan)))
                       (Some ([xyzFar, xyzNear] ! k)) (plan (initialState exampleEnv emptyPlan)) \<rparr>,
            None))
   \<and> processChunk exampleEnv False (exampleRoute []) 1 0 (initialState exampleEnv emptyPlan)
           (Waypoint ''XYZ'' \<lparr> lat = Num 10, long = Num 25 \<rparr>)
       = (\<lparr> insertHead = 1,
            plan = \<lparr> pendingAirways = None, rest = [Leg (Some xyzNear)] \<rparr> \<rparr>, None)"
proof -
  let ?hint = "\<lparr> lat = Num 10, long = Num 25 \<rparr>"
  have h1: "searchAllFix exampleEnv ''XYZ'' = [xyzFar, xyzNear]" by (simp add: example_defs)
  have h2: "length [xyzFar, xyzNear] > 1" by simp
  have d1: "distanceTo exampleEnv (location xyzFar) ?hint = Num 50" by (simp add: example_defs)
  have d2: "distanceTo exampleEnv (location xyzNear) ?hint = Num 5" by (simp add: example_defs)
  have h3: "\<exists>f \<in> set [xyzFar, xyzNear].
              jslt (distanceTo exampleEnv (location f) ?hint) MAX_SAFE_INTEGER"
    using d2 by (simp add: MAX_SAFE_INTEGER_def)
  from waypoint_nearest_candidate[OF h1 h2 h3, of False "exampleRoute []" 1 0
         "initialState exampleEnv emptyPlan"]
  have ex: "\<exists>k < length [xyzFar, xyzNear].
         processChunk exampleEnv False (exampleRoute []) 1 0 (initialState exampleEnv emptyPlan)
           (Waypoint ''XYZ'' ?hint)
         = (\<lparr> insertHead =
                insertHead (establishInsertHead exampleEnv (initialState exampleEnv emptyPlan)) + 1,
              plan = nextWaypoint exampleEnv
                       (insertHead (establishInsertHead exampleEnv (initialState exampleEnv emptyPlan)))
                       (Some ([xyzFar, xyzNear] ! k)) (plan (initialState exampleEnv emptyPlan)) \<rparr>,
            None)"
    by blast
  have ev: "processChunk exampleEnv False (exampleRoute []) 1 0 (initialState exampleEnv emptyPlan)
           (Waypoint ''XYZ'' ?hint)
       = (\<lparr> insertHead = 1,
            plan = \<lparr> pendingAirways = None, rest = [Leg (Some xyzNear)] \<rparr> \<rparr>, None)"
    by (simp add: example_defs)
  show ?thesis using h1 d1 d2 ex ev by blast
qed

text \<open>
  Claim C8, as stated: the insertion head is computed before the first chunk and is never
  \<open>-1\<close> afterwards, so that it is a non-negative index at every chunk and the statements
  that establish it in the cases of Waypoint and LatLong chunks are never executed. On a
  route whose five counted segments hold no leg, the value computed before the first
  chunk is \<open>-1\<close>: this is the insertion head with which the first chunk is processed,
  a Waypoint chunk executes the establishing statement, and the leg is inserted with
  the index \<open>-1\<close>.
\<close>

theorem insert_head_minus_one_on_empty_route:
  "processChunks emptyRouteEnv False
     (exampleRoute [Waypoint ''E'' \<lparr> lat = Num 11, long = Num 21 \<rparr>]) 1 0
     (initialState emptyRouteEnv emptyPlan) []
   = (\<lparr> insertHead = - 1, plan = emptyPlan \<rparr>, None)
   \<and> establishInsertHead emptyRouteEnv \<lparr> insertHead = - 1, plan = emptyPlan \<rparr>
       = \<lparr> insertHead = setInsertHeadToEndOfEnroute emptyRouteEnv emptyPlan, plan = emptyPlan \<rparr>
   \<and> uplinkFlightPlanFromSimbrief emptyRouteEnv \<lparr> doUplinkProcedures = None \<rparr>
       (exampleRoute [Waypoint ''E'' \<lparr> lat = Num 11, long = Num 21 \<rparr>]) emptyPlan
     = (\<lparr> insertHead = 0, plan = \<lparr> pendingAirways = None, rest = [Leg (Some fixE)] \<rparr> \<rparr>, None)"
  by (simp add: example_defs)

text \<open>
  Claim C8, amended: the insertion head is computed before the first chunk; provided the
  five segments counted by that computation always hold at least one leg between them,
  the insertion head is non-negative in every state in which a chunk of any chunk
  sequence is processed (the state \<open>st\<close> that the chunks \<open>pre\<close> before it have
  left), and the statement that establishes it in the cases of Waypoint and LatLong
  chunks changes nothing there.
\<close>

theorem insert_head_nonneg:
  assumes "routeNeverEmpty env"
    and "processChunks env d route n 0 (initialState env p) pre = (st, None)"
  shows "0 \<le> insertHead st \<and> establishInsertHead env st = st"
proof -
  have "0 \<le> insertHead (initialState env p)"
    using setInsertHead_nonneg[OF assms(1)] by (simp add: initialState_def)
  from processChunks_nonneg[OF assms(1) this, of d route n 0 pre] assms(2)
  have "0 \<le> insertHead st" by simp
  then show ?thesis by (simp add: establish_nonneg)
qed

theorem insert_head_nonneg_witness:
  "routeNeverEmpty exampleEnv
   \<and> processChunks exampleEnv False (exampleRoute []) 2 0 (initialState exampleEnv emptyPlan)
       [LatLong (Num 1) (Num 2)]
     = (\<lparr> insertHead = 1,
          plan = \<lparr> pendingAirways = None,
                   rest = [Leg (Some \<lparr> ident = ''LL'', icaoCode = [],
                                       location = \<lparr> lat = Num 1, long = Num 2 \<rparr> \<rparr>)] \<rparr> \<rparr>, None)
   \<and> 0 \<le> insertHead
            \<lparr> insertHead = 1,
              plan = \<lparr> pendingAirways = None,
                       rest = [Leg (Some \<lparr> ident = ''LL'', icaoCode = [],
                                           location = \<lparr> lat = Num 1, long = Num 2 \<rparr> \<rparr>)] \<rparr> \<rparr>"
proof -
  let ?st = "\<lparr> insertHead = 1,
          plan = \<lparr> pendingAirways = None,
                   rest = [Leg (Some \<lparr> ident = ''LL'', icaoCode = [],
                                       location = \<lparr> lat = Num 1, long = Num 2 \<rparr> \<rparr>)] \<rparr> \<rparr>"
  have h1: "routeNeverEmpty exampleEnv"
    by (simp add: routeNeverEmpty_def exampleEnv_def exampleEnvWith_def)
  have h2: "processChunks exampleEnv False (exampleRoute []) 2 0
              (initialState exampleEnv emptyPlan) [LatLong (Num 1) (Num 2)] = (?st, None)"
    by (simp add: example_defs)
  from insert_head_nonneg[OF h1 h2] have "0 \<le> insertHead ?st" by blast
  then show ?thesis using h1 h2 by blast
qed

text \<open>
  Claim C9. In the case of an AirwayTermination chunk, let \<open>p1\<close> be the plan with its
  pending airways (started by the case itself if there were none). If the lookup returns
  at least one fix, and no returned fix agrees in identifier and region code with a fix
  of the airway of the last pending element, the run does not fail: \<^verbatim>\<open>thenTo\<close> is
  called with \<^verbatim>\<open>undefined\<close>, and, the pending airways being still there after that
  call, they are finalized and cleared and the insertion head is computed anew.
\<close>

theorem airway_termination_no_match:
  assumes "p1 = (case pendingAirways (plan st) of
                   None \<Rightarrow> startAirwayEntry env (insertHead st) (plan st)
                 | Some pending0 \<Rightarrow> plan st)"
    and "pendingAirways p1 = Some pending"
    and "arrayAt (elements pending) (int (length (elements pending)) - 1) = Some tailElement"
    and "pe_airway tailElement = Some a"
    and "searchAllFix env chunkIdent = cands"
    and "cands \<noteq> []"
    and "\<forall>it \<in> set cands. \<forall>fx \<in> set (awy_fixes a).
           \<not> (ident fx = ident it \<and> icaoCode fx = icaoCode it)"
    and "pendingAirways (thenTo env None p1) \<noteq> None"
  shows "processChunk env d route n i st (AirwayTermination chunkIdent)
           = (\<lparr> insertHead = setInsertHeadToEndOfEnroute env
                                ((finalize env (thenTo env None p1))\<lparr> pendingAirways := None \<rparr>),
                plan = (finalize env (thenTo env None p1))\<lparr> pendingAirways := None \<rparr> \<rparr>, None)"
proof -
  have nf: "find (\<lambda>it. list_ex (\<lambda>fx. ident fx = ident it \<and> icaoCode fx = icaoCode it)
                               (awy_fixes a)) cands = None"
    using assms(7) by (auto simp: find_None_iff list_ex_iff)
  have pk: "pickAirwayFix (Some a) cands = Inr None" using nf by (simp add: pickAirwayFix_def)
  obtain pa where pa: "pendingAirways (thenTo env None p1) = Some pa" using assms(8) by blast
  show ?thesis
  proof (cases "pendingAirways (plan st)")
    case None
    then have p1: "p1 = startAirwayEntry env (insertHead st) (plan st)" using assms(1) by simp
    show ?thesis using None assms(2-6) pk pa unfolding p1
      by (simp add: Let_def ensureAirwaysFinalized_def)
  next
    case (Some pending0)
    then have p1: "p1 = plan st" using assms(1) by simp
    show ?thesis using Some assms(2-6) pk pa unfolding p1
      by (simp add: Let_def ensureAirwaysFinalized_def)
  qed
qed

theorem airway_termination_no_match_witness:
  "processChunks exampleEnv False (exampleRoute []) 3 0 (initialState exampleEnv emptyPlan)
     [Waypoint ''E'' \<lparr> lat = Num 11, long = Num 21 \<rparr>, Airway ''AWY1'' \<lparr> lat = Num 12, long = Num 22 \<rparr>]
   = (\<lparr> insertHead = 1,
        plan = \<lparr> pendingAirways = Some \<lparr> elements = [\<lparr> pe_airway = Some airwayEF, pe_to = None \<rparr>] \<rparr>,
                 rest = [Leg (Some fixE)] \<rparr> \<rparr>, None)
   \<and> searchAllFix exampleEnv ''G'' = [fixG]
   \<and> processChunk exampleEnv False (exampleRoute []) 3 2
       \<lparr> insertHead = 1,
         plan = \<lparr> pendingAirways = Some \<lparr> elements = [\<lparr> pe_airway = Some airwayEF, pe_to = None \<rparr>] \<rparr>,
                  rest = [Leg (Some fixE)] \<rparr> \<rparr>
       (AirwayTermination ''G'')
     = (\<lparr> insertHead = 2,
          plan = \<lparr> pendingAirways = None, rest = [Leg (Some fixE), Leg None] \<rparr> \<rparr>, None)"
proof -
  let ?pending = "\<lparr> elements = [\<lparr> pe_airway = Some airwayEF, pe_to = None \<rparr>] \<rparr>"
  let ?p = "\<lparr> pendingAirways = Some ?pending, rest = [Leg (Some fixE)] \<rparr>"
  let ?st = "\<lparr> insertHead = 1, plan = ?p \<rparr>"
  have run: "processChunks exampleEnv False (exampleRoute []) 3 0 (initialState exampleEnv emptyPlan)
     [Waypoint ''E'' \<lparr> lat = Num 11, long = Num 21 \<rparr>, Airway ''AWY1'' \<lparr> lat = Num 12, long = Num 22 \<rparr>]
     = (?st, None)"
    by (simp add: example_defs)
  have h1: "?p = (case pendingAirways (plan ?st) of
                   None \<Rightarrow> startAirwayEntry exampleEnv (insertHead ?st) (plan ?st)
                 | Some pending0 \<Rightarrow> plan ?st)" by simp
  have h2: "pendingAirways ?p = Some ?pending" by simp
  have h3: "arrayAt (elements ?pending) (int (length (elements ?pending)) - 1)
              = Some \<lparr> pe_airway = Some airwayEF, pe_to = None \<rparr>"
    by (simp add: arrayAt_def)
  have h4: "pe_airway \<lparr> pe_airway = Some airwayEF, pe_to = None \<rparr> = Some airwayEF" by simp
  have h5: "searchAllFix exampleEnv ''G'' = [fixG]" by (simp add: example_defs)
  have h6: "[fixG] \<noteq> []" by simp
  have h7: "\<forall>it \<in> set [fixG]. \<forall>fx \<in> set (awy_fixes airwayEF).
              \<not> (ident fx = ident it \<and> icaoCode fx = icaoCode it)"
    by (simp add: airwayEF_def fixE_def fixF_def fixG_def)
  have h8: "pendingAirways (thenTo exampleEnv None ?p) \<noteq> None"
    by (simp add: exampleEnv_def exampleEnvWith_def)
  from airway_termination_no_match[OF h1 h2 h3 h4 h5 h6 h7 h8, of False "exampleRoute []" 3 2]
  have "processChunk exampleEnv False (exampleRoute []) 3 2 ?st (AirwayTermination ''G'')
     = (\<lparr> insertHead = 2,
          plan = \<lparr> pendingAirways = None, rest = [Leg (Some fixE), Leg None] \<rparr> \<rparr>, None)"
    by (simp add: exampleEnv_def exampleEnvWith_def setInsertHeadToEndOfEnroute_def arrayAt_def)
  then show ?thesis using run h5 by blast
qed

text \<open>
  Claim C10. There are inputs on which a Waypoint chunk is inserted with no fix instead
  of failing: whenever a fix of the navlog that becomes a Waypoint chunk has a latitude
  text that \<^verbatim>\<open>parseFloat\<close> turns into not-a-number, the distance to a hint with such
  a latitude is not-a-number, and the lookup of its identifier returns more than one fix,
  the chunk carries the not-a-number hint, \<^verbatim>\<open>pickFix\<close> returns \<^verbatim>\<open>undefined\<close> (every
  comparison fails and the selected index stays \<open>-1\<close>), and the run calls
  \<^verbatim>\<open>nextWaypoint\<close> with \<^verbatim>\<open>undefined\<close>, advances the insertion head and ends without
  error. The witness is such an input.
\<close>

theorem nan_hint_inserts_undefined:
  assumes "\<not> isSkipped f0" and "is_sid_star f0 \<noteq> ''1''" and "nf_type f0 \<noteq> ''ltlg''"
    and "parseFloat (pos_lat f0) = NaN"
    and "chunks route = generateRouteInstructionsFromNavlog parseFloat [f0]"
    and "\<forall>a b. lat b = NaN \<longrightarrow> distanceTo env a b = NaN"
    and "length (searchAllFix env (nf_ident f0)) > 1"
  shows "chunks route = [Waypoint (nf_ident f0) \<lparr> lat = NaN, long = parseFloat (pos_long f0) \<rparr>]
         \<and> pickFix env (searchAllFix env (nf_ident f0))
             \<lparr> lat = NaN, long = parseFloat (pos_long f0) \<rparr> = None
         \<and> uplinkFlightPlanFromSimbrief env options route p
             = (\<lparr> insertHead = setInsertHeadToEndOfEnroute env p + 1,
                  plan = nextWaypoint env (setInsertHeadToEndOfEnroute env p) None p \<rparr>, None)"
proof -
  let ?hint = "\<lparr> lat = NaN, long = parseFloat (pos_long f0) \<rparr>"
  have cs: "chunks route = [Waypoint (nf_ident f0) ?hint]"
    using assms(1-5)
    by (simp add: generateRouteInstructionsFromNavlog_def pushFor_def endOfAirway_def
                  lastInstructionOf_def hintOf_def)
  have "\<forall>f \<in> set (searchAllFix env (nf_ident f0)). distanceTo env (location f) ?hint = NaN"
    using assms(6) by simp
  then have pk: "pickFix env (searchAllFix env (nf_ident f0)) ?hint = None"
    by (rule pickFix_all_NaN)
  have "uplinkFlightPlanFromSimbrief env options route p
             = (\<lparr> insertHead = setInsertHeadToEndOfEnroute env p + 1,
                  plan = nextWaypoint env (setInsertHeadToEndOfEnroute env p) None p \<rparr>, None)"
    using assms(7) pk
    by (auto simp: uplinkFlightPlanFromSimbrief_def cs initialState_def establishInsertHead_def
                   insertFoundFix_def Let_def)
  then show ?thesis using cs pk by blast
qed

theorem nan_hint_inserts_undefined_witness:
  "generateRouteInstructionsFromNavlog exampleParseFloat
     [\<lparr> nf_ident = ''XYZ'', nf_type = ''wpt'', pos_lat = ''N/A'', pos_long = ''11'',
        via_airway = ''DCT'', is_sid_star = ''0'' \<rparr>]
   = [Waypoint ''XYZ'' \<lparr> lat = NaN, long = Num 11 \<rparr>]
   \<and> searchAllFix exampleEnv ''XYZ'' = [xyzFar, xyzNear]
   \<and> pickFix exampleEnv [xyzFar, xyzNear] \<lparr> lat = NaN, long = Num 11 \<rparr> = None
   \<and> uplinkFlightPlanFromSimbrief exampleEnv \<lparr> doUplinkProcedures = None \<rparr>
       (exampleRoute (generateRouteInstructionsFromNavlog exampleParseFloat
          [\<lparr> nf_ident = ''XYZ'', nf_type = ''wpt'', pos_lat = ''N/A'', pos_long = ''11'',
             via_airway = ''DCT'', is_sid_star = ''0'' \<rparr>])) emptyPlan
     = (\<lparr> insertHead = 1, plan = \<lparr> pendingAirways = None, rest = [Leg None] \<rparr> \<rparr>, None)"
proof -
  let ?f0 = "\<lparr> nf_ident = ''XYZ'', nf_type = ''wpt'', pos_lat = ''N/A'', pos_long = ''11'',
                via_airway = ''DCT'', is_sid_star = ''0'' \<rparr>"
  let ?route = "exampleRoute (generateRouteInstructionsFromNavlog exampleParseFloat [?f0])"
  have h1: "\<not> isSkipped ?f0" by (simp add: isSkipped_def)
  have h2: "is_sid_star ?f0 \<noteq> ''1''" by simp
  have h3: "nf_type ?f0 \<noteq> ''ltlg''" by simp
  have h4: "exampleParseFloat (pos_lat ?f0) = NaN" by (simp add: exampleParseFloat_def)
  have h5: "chunks ?route = generateRouteInstructionsFromNavlog exampleParseFloat [?f0]"
    by (simp add: exampleRoute_def)
  have h6: "\<forall>a b. lat b = NaN \<longrightarrow> distanceTo exampleEnv a b = NaN"
    by (simp add: exampleEnv_def exampleEnvWith_def split: jsnum.splits)
  have sf: "searchAllFix exampleEnv ''XYZ'' = [xyzFar, xyzNear]" by (simp add: example_defs)
  have h7: "length (searchAllFix exampleEnv (nf_ident ?f0)) > 1" using sf by simp
  note r = nan_hint_inserts_undefined[OF h1 h2 h3 h4 h5 h6 h7,
             of "\<lparr> doUplinkProcedures = None \<rparr>" emptyPlan]
  have e: "exampleParseFloat ''11'' = Num 11" by (simp add: exampleParseFloat_def)
  have s: "setInsertHeadToEndOfEnroute exampleEnv emptyPlan = 0" by (simp add: example_defs)
  have n: "nextWaypoint exampleEnv 0 None emptyPlan = \<lparr> pendingAirways = None, rest = [Leg None] \<rparr>"
    by (simp add: example_defs)
  have a: "generateRouteInstructionsFromNavlog exampleParseFloat [?f0]
             = [Waypoint ''XYZ'' \<lparr> lat = NaN, long = Num 11 \<rparr>]"
    using r h5 e by simp
  have b: "pickFix exampleEnv [xyzFar, xyzNear] \<lparr> lat = NaN, long = Num 11 \<rparr> = None"
    using r sf e by simp
  have c: "uplinkFlightPlanFromSimbrief exampleEnv \<lparr> doUplinkProcedures = None \<rparr> ?route emptyPlan
             = (\<lparr> insertHead = 1, plan = \<lparr> pendingAirways = None, rest = [Leg None] \<rparr> \<rparr>, None)"
    using r s n by simp
  show ?thesis using a sf b c by blast
qed

end
